theory Spec2Isabelle
  imports Main "HOL-Library.Word"
begin

section \<open>JavaScript values\<close>

text \<open>
  Request bodies, upstream replies and cached entries are JSON documents. A JSON value is
  modelled as the tree \<open>JSON.parse\<close> builds; an object keeps its members in insertion
  order, as a JavaScript object does. A string is a list of characters with code below
  256. The JavaScript value \<open>undefined\<close> (a missing property) is \<open>None\<close> of
  \<open>json option\<close>.

  A number is a signed integer of 54 bits, read with \<open>sint\<close>: the integers from
  \<open>- (2 ^ 53)\<close> to \<open>2 ^ 53 - 1\<close>. These are integers that a JavaScript number holds
  exactly, and that \<open>String\<close> and \<open>JSON.stringify\<close> print in plain decimal. Fractions
  and integers beyond that range (from \<open>10 ^ 21\<close> on they print with an exponent) are
  not values of the type.
\<close>

type_synonym jsint = "54 word"

datatype json =
    JNull
  | JBool bool
  | JNum jsint
  | JStr string
  | JArr "json list"
  | JObj "(string \<times> json) list"

text \<open>Property read \<open>v.k\<close> on a value that is neither \<open>null\<close> nor \<open>undefined\<close>, for the
  keys the program uses (none of them is a built-in property of strings or arrays).\<close>

fun get_prop :: "json \<Rightarrow> string \<Rightarrow> json option" where
  "get_prop (JObj ms) k = map_of ms k"
| "get_prop _ k = None"

text \<open>Truthiness of a value, as \<open>if (v)\<close>, \<open>!v\<close>, \<open>a || b\<close> and \<open>a && b\<close> test it.\<close>

fun truthy :: "json \<Rightarrow> bool" where
  "truthy JNull = False"
| "truthy (JBool b) = b"
| "truthy (JNum n) = (n \<noteq> 0)"
| "truthy (JStr s) = (s \<noteq> [])"
| "truthy (JArr xs) = True"
| "truthy (JObj ms) = True"

fun truthy_opt :: "json option \<Rightarrow> bool" where
  "truthy_opt None = False"
| "truthy_opt (Some v) = truthy v"

text \<open>\<open>a || d\<close> where \<open>d\<close> is a JSON value.\<close>

definition or_default :: "json option \<Rightarrow> json \<Rightarrow> json" where
  "or_default a d = (case a of Some v \<Rightarrow> (if truthy v then v else d) | None \<Rightarrow> d)"

subsection \<open>Decimal and hexadecimal digits\<close>

definition digit_char :: "nat \<Rightarrow> char" where
  "digit_char d = char_of (48 + d)"

fun show_nat :: "nat \<Rightarrow> string" where
  "show_nat n = (if n < 10 then [digit_char n] else show_nat (n div 10) @ [digit_char (n mod 10)])"

declare show_nat.simps [simp del]

definition show_int :: "int \<Rightarrow> string" where
  "show_int i = (if i < 0 then CHR ''-'' # show_nat (nat (- i)) else show_nat (nat i))"

definition hex_lower :: "nat \<Rightarrow> char" where
  "hex_lower d = (if d < 10 then char_of (48 + d) else char_of (87 + d))"

definition hex_upper :: "nat \<Rightarrow> char" where
  "hex_upper d = (if d < 10 then char_of (48 + d) else char_of (55 + d))"

subsection \<open>\<open>JSON.stringify\<close>\<close>

abbreviation dquote :: char where
  "dquote \<equiv> CHR 0x22"

abbreviation backslash :: char where
  "backslash \<equiv> CHR 0x5C"

text \<open>The escape of one character inside a string literal (ECMAScript \<open>QuoteJSONString\<close>).\<close>

definition json_escape :: "char \<Rightarrow> string" where
  "json_escape c =
     (if c = dquote then [backslash, dquote]
      else if c = backslash then [backslash, backslash]
      else if c = CHR 0x08 then [backslash, CHR ''b'']
      else if c = CHR 0x0C then [backslash, CHR ''f'']
      else if c = CHR 0x0A then [backslash, CHR ''n'']
      else if c = CHR 0x0D then [backslash, CHR ''r'']
      else if c = CHR 0x09 then [backslash, CHR ''t'']
      else if of_char c < (32 :: nat)
        then [backslash, CHR ''u'', CHR ''0'', CHR ''0'',
              hex_lower (of_char c div 16), hex_lower (of_char c mod 16)]
      else [c])"

definition json_quote :: "string \<Rightarrow> string" where
  "json_quote s = dquote # concat (map json_escape s) @ [dquote]"

fun stringify :: "json \<Rightarrow> string"
  and stringify_elems :: "json list \<Rightarrow> string"
  and stringify_members :: "(string \<times> json) list \<Rightarrow> string"
where
  "stringify JNull = ''null''"
| "stringify (JBool b) = (if b then ''true'' else ''false'')"
| "stringify (JNum n) = show_int (sint n)"
| "stringify (JStr s) = json_quote s"
| "stringify (JArr xs) = ''['' @ stringify_elems xs @ '']''"
| "stringify (JObj ms) = ''{'' @ stringify_members ms @ ''}''"
| "stringify_elems [] = []"
| "stringify_elems [x] = stringify x"
| "stringify_elems (x # y # ys) = stringify x @ '','' @ stringify_elems (y # ys)"
| "stringify_members [] = []"
| "stringify_members [(k, v)] = json_quote k @ '':'' @ stringify v"
| "stringify_members ((k, v) # m # ms) =
     json_quote k @ '':'' @ stringify v @ '','' @ stringify_members (m # ms)"

subsection \<open>\<open>String(v)\<close> and \<open>Array.prototype.join\<close>\<close>

text \<open>
  The conversion to a string that \<open>String(v)\<close>, \<open>encodeURIComponent(v)\<close> and \<open>join\<close>
  apply; \<open>None\<close> is the throw of \<open>TypeError: Cannot convert object to primitive value\<close>.
  An array is its elements joined by a comma, where \<open>null\<close> gives the empty string. An
  object parsed from JSON is \<open>[object Object]\<close> through the inherited \<open>toString\<close>; when
  it has a member \<open>toString\<close> of its own, that member is not callable, the \<open>valueOf\<close>
  tried next does not give a primitive either, and the conversion throws.
\<close>

fun js_toString :: "json \<Rightarrow> string option"
  and js_join_comma :: "json list \<Rightarrow> string option"
where
  "js_toString JNull = Some ''null''"
| "js_toString (JBool b) = Some (if b then ''true'' else ''false'')"
| "js_toString (JNum n) = Some (show_int (sint n))"
| "js_toString (JStr s) = Some s"
| "js_toString (JArr xs) = js_join_comma xs"
| "js_toString (JObj ms) =
     (case map_of ms ''toString'' of
        None \<Rightarrow> Some ''[object Object]''
      | Some v \<Rightarrow> None)"
| "js_join_comma [] = Some []"
| "js_join_comma [x] = (if x = JNull then Some [] else js_toString x)"
| "js_join_comma (x # y # ys) =
     (case (if x = JNull then Some [] else js_toString x) of
        None \<Rightarrow> None
      | Some a \<Rightarrow>
          (case js_join_comma (y # ys) of
             None \<Rightarrow> None
           | Some b \<Rightarrow> Some (a @ '','' @ b)))"

text \<open>The strings of a list one after the other, unless one of them is a throw.\<close>

fun concat_options :: "string option list \<Rightarrow> string option" where
  "concat_options [] = Some []"
| "concat_options (x # xs) =
     (case x of
        None \<Rightarrow> None
      | Some a \<Rightarrow> (case concat_options xs of None \<Rightarrow> None | Some b \<Rightarrow> Some (a @ b)))"

subsection \<open>Strings\<close>

text \<open>\<open>s.startsWith(p)\<close>, \<open>s.endsWith(p)\<close> and \<open>s.includes(p)\<close>.\<close>

fun starts_with :: "string \<Rightarrow> string \<Rightarrow> bool" where
  "starts_with s [] = True"
| "starts_with [] (p # ps) = False"
| "starts_with (c # cs) (p # ps) = (c = p \<and> starts_with cs ps)"

definition ends_with :: "string \<Rightarrow> string \<Rightarrow> bool" where
  "ends_with s p = starts_with (rev s) (rev p)"

fun str_includes :: "string \<Rightarrow> string \<Rightarrow> bool" where
  "str_includes [] p = (p = [])"
| "str_includes (c # cs) p = (starts_with (c # cs) p \<or> str_includes cs p)"

text \<open>\<open>toLowerCase\<close> on characters below 256: A-Z and the Latin-1 capitals (all of
  192 to 222 but the multiplication sign 215) move by 32.\<close>

definition lower_char :: "char \<Rightarrow> char" where
  "lower_char c =
     (let n = (of_char c :: nat)
      in if (65 \<le> n \<and> n \<le> 90) \<or> (192 \<le> n \<and> n \<le> 214) \<or> (216 \<le> n \<and> n \<le> 222)
         then char_of (n + 32) else c)"

definition toLowerCase :: "string \<Rightarrow> string" where
  "toLowerCase s = map lower_char s"

text \<open>\<open>s.replace(/\/+$/, "")\<close>: every trailing slash is removed.\<close>

definition strip_trailing_slashes :: "string \<Rightarrow> string" where
  "strip_trailing_slashes s = rev (dropWhile (\<lambda>c. c = CHR ''/'') (rev s))"

text \<open>\<open>s.trim()\<close>: the white space below 256 is TAB, LF, VT, FF, CR, SP and NBSP.\<close>

definition js_space :: "char \<Rightarrow> bool" where
  "js_space c = ((of_char c :: nat) \<in> {9, 10, 11, 12, 13, 32, 160})"

definition js_trim :: "string \<Rightarrow> string" where
  "js_trim s = rev (dropWhile js_space (rev (dropWhile js_space s)))"

text \<open>\<open>s.split("\n")\<close>: never empty.\<close>

fun split_lines :: "string \<Rightarrow> string list" where
  "split_lines [] = [[]]"
| "split_lines (c # cs) =
     (if c = CHR 0x0A then [] # split_lines cs
      else (case split_lines cs of
              l # ls \<Rightarrow> (c # l) # ls
            | [] \<Rightarrow> [[c]]))"

text \<open>\<open>encodeURIComponent\<close>: the unreserved characters stay, every other character is
  the percent-escape of its UTF-8 bytes (two bytes from 128 to 255).\<close>

definition uri_unreserved :: "char \<Rightarrow> bool" where
  "uri_unreserved c =
     (let n = (of_char c :: nat)
      in (65 \<le> n \<and> n \<le> 90) \<or> (97 \<le> n \<and> n \<le> 122) \<or> (48 \<le> n \<and> n \<le> 57)
         \<or> c \<in> set ''-_.!~*'()'')"

definition percent_byte :: "nat \<Rightarrow> string" where
  "percent_byte b = [CHR ''%'', hex_upper (b div 16), hex_upper (b mod 16)]"

definition encode_char :: "char \<Rightarrow> string" where
  "encode_char c =
     (let n = (of_char c :: nat)
      in if uri_unreserved c then [c]
         else if n < 128 then percent_byte n
         else percent_byte (192 + n div 64) @ percent_byte (128 + n mod 64))"

definition encodeURIComponent :: "string \<Rightarrow> string" where
  "encodeURIComponent s = concat (map encode_char s)"

subsection \<open>Thrown errors\<close>

text \<open>A thrown \<open>Error\<close> object, with the fields the program inspects.\<close>

datatype errcode = NoCode | NumCode int | StrCode string

record jserror =
  err_name :: string
  err_code :: errcode
  err_message :: string
  err_body :: "string option"

definition type_error :: "string \<Rightarrow> jserror" where
  "type_error msg =
     \<lparr> err_name = ''TypeError'', err_code = NoCode, err_message = msg, err_body = None \<rparr>"


section \<open>Fingerprint and text coercion (utils.js)\<close>

text \<open>\<open>hashPayload\<close>: the digest is Node's \<open>crypto\<close> SHA-256 in hex, a parameter here.\<close>

definition hashPayload_input :: "json \<Rightarrow> string" where
  "hashPayload_input payload =
     stringify (JObj
       [(''messages'', or_default (get_prop payload ''messages'') (JArr [])),
        (''tools'', or_default (get_prop payload ''tools'') JNull),
        (''tool_choice'', or_default (get_prop payload ''tool_choice'') JNull),
        (''response_format'', or_default (get_prop payload ''response_format'') JNull)])"

definition hashPayload :: "(string \<Rightarrow> string) \<Rightarrow> json \<Rightarrow> string" where
  "hashPayload sha256_hex payload = sha256_hex (hashPayload_input payload)"

text \<open>\<open>coerceContent\<close> of utils.js. \<open>JSON.stringify\<close> does not throw on a JSON value, so
  the \<open>catch\<close> branch is never taken.\<close>

fun coerceContent :: "json option \<Rightarrow> string" where
  "coerceContent None = []"
| "coerceContent (Some JNull) = []"
| "coerceContent (Some (JStr s)) = s"
| "coerceContent (Some v) = stringify v"

text \<open>\<open>truncate\<close>: \<open>slice(0, maxChars)\<close> counts from the end when \<open>maxChars\<close> is negative.\<close>

definition truncate :: "string \<Rightarrow> int \<Rightarrow> string" where
  "truncate text maxChars =
     (if text = [] \<or> int (length text) \<le> maxChars then text
      else (if 0 \<le> maxChars then take (nat maxChars) text
            else take (length text - nat (- maxChars)) text) @ ''\<newline>[TRUNCATED]'')"

text \<open>\<open>m => ({ role: m.role, content: m.content })\<close>: reading a property of \<open>null\<close>
  throws; \<open>JSON.stringify\<close> later omits a member that is \<open>undefined\<close>, so it is left out.\<close>

definition role_content :: "json \<Rightarrow> jserror + json" where
  "role_content m =
     (if m = JNull then Inl (type_error ''Cannot read properties of null (reading 'role')'')
      else Inr (JObj
        ((case get_prop m ''role'' of Some r \<Rightarrow> [(''role'', r)] | None \<Rightarrow> [])
         @ (case get_prop m ''content'' of Some c \<Rightarrow> [(''content'', c)] | None \<Rightarrow> []))))"

fun map_role_content :: "json list \<Rightarrow> jserror + json list" where
  "map_role_content [] = Inr []"
| "map_role_content (m # ms) =
     (case role_content m of
        Inl err \<Rightarrow> Inl err
      | Inr o1 \<Rightarrow> (case map_role_content ms of Inl err \<Rightarrow> Inl err | Inr os \<Rightarrow> Inr (o1 # os)))"

text \<open>\<open>[...messages].reverse().find(m => m.role === "user")\<close>, on the reversed list.\<close>

fun find_user :: "json list \<Rightarrow> jserror + json option" where
  "find_user [] = Inr None"
| "find_user (m # ms) =
     (if m = JNull then Inl (type_error ''Cannot read properties of null (reading 'role')'')
      else if get_prop m ''role'' = Some (JStr ''user'') then Inr (Some m)
      else find_user ms)"

definition buildClassifierInput :: "json \<Rightarrow> string \<Rightarrow> int \<Rightarrow> jserror + string" where
  "buildClassifierInput payload strategy maxChars =
     (let messages = (case get_prop payload ''messages'' of Some (JArr ms) \<Rightarrow> ms | _ \<Rightarrow> [])
      in if strategy = ''full_messages'' then
           (case map_role_content messages of
              Inl err \<Rightarrow> Inl err
            | Inr os \<Rightarrow> Inr (truncate (stringify (JArr os)) maxChars))
         else
           (case find_user (rev messages) of
              Inl err \<Rightarrow> Inl err
            | Inr (Some lastUser) \<Rightarrow>
                Inr (truncate (coerceContent (get_prop lastUser ''content'')) maxChars)
            | Inr None \<Rightarrow>
                (case map_role_content messages of
                   Inl err \<Rightarrow> Inl err
                 | Inr os \<Rightarrow> Inr (truncate (stringify (JArr os)) maxChars))))"

section \<open>Decision cache (cache.js)\<close>

text \<open>
  The three classes behind \<open>get\<close> and \<open>set\<close>. The LRU store and the Redis client are
  libraries: the store is the lookup it answers with, the client is what its two calls
  resolve to or reject with. A result \<open>Inl err\<close> is a rejected promise.
\<close>

record redis_client =
  redis_get :: "string \<Rightarrow> jserror + string option"
  redis_setEx :: "string \<Rightarrow> int \<Rightarrow> string \<Rightarrow> jserror + unit"

datatype cache =
    NoopCache
  | MemoryCache "string \<Rightarrow> string option"
  | RedisCache redis_client int

definition new_RedisCache :: "redis_client \<Rightarrow> int \<Rightarrow> cache" where
  "new_RedisCache client ttlMs = RedisCache client (max 1 (ttlMs div 1000))"

fun cache_get :: "cache \<Rightarrow> string \<Rightarrow> jserror + string option" where
  "cache_get NoopCache key = Inr None"
| "cache_get (MemoryCache lru) key = Inr (lru key)"
| "cache_get (RedisCache client ttlSec) key =
     (case redis_get client key of Inl err \<Rightarrow> Inl err | Inr v \<Rightarrow> Inr v)"

fun cache_set :: "cache \<Rightarrow> string \<Rightarrow> string \<Rightarrow> jserror + unit" where
  "cache_set NoopCache key v = Inr ()"
| "cache_set (MemoryCache lru) key v = Inr ()"
| "cache_set (RedisCache client ttlSec) key v = redis_setEx client key ttlSec v"

section \<open>Classifier client (classifier.js)\<close>

definition isAbortError :: "jserror \<Rightarrow> bool" where
  "isAbortError err =
     (if err_name err = ''AbortError'' then True
      else if err_code err = NumCode 20 then True
      else str_includes (toLowerCase (err_message err)) ''aborted'')"

definition isModelLoadingMessage :: "string \<Rightarrow> bool" where
  "isModelLoadingMessage text = str_includes (toLowerCase text) ''loading model''"

definition isModelLoadingError :: "jserror \<Rightarrow> bool" where
  "isModelLoadingError err =
     (if err_code err = StrCode ''MODEL_LOADING'' then True
      else isModelLoadingMessage
        (case err_body err of
           Some b \<Rightarrow> (if b \<noteq> [] then b else err_message err)
         | None \<Rightarrow> err_message err))"

text \<open>The classifier configuration, as far as the router reads it. The two retry
  settings may be absent (\<open>?? 1\<close>, \<open>?? 1000\<close> in the source).\<close>

record classifier_config =
  c_enabled :: bool
  c_baseUrl :: "string option"
  c_model :: string
  c_strategy :: string
  c_maxChars :: int
  timeoutMs :: int
  forceStream :: bool
  loadingMaxRetries :: "int option"
  loadingRetryMs :: "int option"

text \<open>
  One HTTP exchange of \<open>runClassifier\<close>, as the network answers it: \<open>fetch\<close> rejects
  (a transport failure, or the abort fired by the timer); or the status is not OK, and
  reading the body text either rejects (the timer, still armed, may fire then) or
  gives the text; or the status is OK, and reading the body either throws or yields
  what \<open>extractDecision\<close> finds (\<open>None\<close> is \<open>null\<close>).
\<close>

datatype fetch_result =
    FetchRejected jserror
  | HttpNotOk nat "jserror + string"
  | HttpOk "jserror + nat option"

text \<open>\<open>safeReadText\<close>: an error of reading the text is swallowed.\<close>

definition safeReadText :: "jserror + string \<Rightarrow> string" where
  "safeReadText body = (case body of Inl err \<Rightarrow> [] | Inr text \<Rightarrow> text)"

text \<open>The network is a function of the call's number, its timeout and its stream flag.\<close>

type_synonym network = "nat \<Rightarrow> int \<Rightarrow> bool \<Rightarrow> fetch_result"

definition model_loading_error :: "nat \<Rightarrow> string \<Rightarrow> jserror" where
  "model_loading_error status text =
     \<lparr> err_name = ''Error'', err_code = StrCode ''MODEL_LOADING'',
       err_message = ''classifier model loading: '' @ show_nat status @ '' '' @ text,
       err_body = Some text \<rparr>"

definition classifier_http_error :: "nat \<Rightarrow> string \<Rightarrow> jserror" where
  "classifier_http_error status text =
     \<lparr> err_name = ''Error'', err_code = NoCode,
       err_message = ''classifier error: '' @ show_nat status @ '' '' @ text,
       err_body = None \<rparr>"

definition no_decision_error :: jserror where
  "no_decision_error =
     \<lparr> err_name = ''Error'', err_code = NoCode,
       err_message = ''classifier returned no decision'', err_body = None \<rparr>"

definition runClassifier ::
  "network \<Rightarrow> nat \<Rightarrow> classifier_config \<Rightarrow> bool \<Rightarrow> jserror + nat option" where
  "runClassifier net k config stream =
     (case net k (timeoutMs config) stream of
        FetchRejected err \<Rightarrow> Inl err
      | HttpNotOk status body \<Rightarrow>
          (let text = safeReadText body
           in if isModelLoadingMessage text then Inl (model_loading_error status text)
              else Inl (classifier_http_error status text))
      | HttpOk r \<Rightarrow> r)"

text \<open>\<open>attemptClassification\<close>: the preferred transport, then the other one when the
  first found no digit. The second component counts the HTTP calls made so far.\<close>

definition attemptClassification ::
  "network \<Rightarrow> nat \<Rightarrow> classifier_config \<Rightarrow> (jserror + nat) \<times> nat" where
  "attemptClassification net k config =
     (let preferStream = forceStream config
      in case runClassifier net k config preferStream of
           Inl err \<Rightarrow> (Inl err, Suc k)
         | Inr (Some d) \<Rightarrow> (Inr d, Suc k)
         | Inr None \<Rightarrow>
             (case runClassifier net (Suc k) config (\<not> preferStream) of
                Inl err \<Rightarrow> (Inl err, Suc (Suc k))
              | Inr None \<Rightarrow> (Inl no_decision_error, Suc (Suc k))
              | Inr (Some d) \<Rightarrow> (Inr d, Suc (Suc k))))"

text \<open>What a request does besides answering: classification attempts (with the timeout
  each one ran under), log lines and sleeps.\<close>

datatype log_level = Debug | Info | Warn | Error

datatype event =
    Attempt int
  | Log log_level string
  | Sleep int

definition maxRetries_of :: "classifier_config \<Rightarrow> int" where
  "maxRetries_of config = (case loadingMaxRetries config of Some n \<Rightarrow> n | None \<Rightarrow> 1)"

definition delay_of :: "classifier_config \<Rightarrow> int" where
  "delay_of config = (case loadingRetryMs config of Some n \<Rightarrow> n | None \<Rightarrow> 1000)"

text \<open>
  The \<open>while (true)\<close> loop of \<open>classifyRequest\<close>. Its state is the number of HTTP calls
  made, \<open>loadingRetries\<close>, \<open>timeoutRetried\<close> and \<open>currentConfig\<close>. The result is the
  returned decision or the thrown error, with the events in order.
\<close>

function classify_loop ::
  "network \<Rightarrow> nat \<Rightarrow> int \<Rightarrow> bool \<Rightarrow> classifier_config \<Rightarrow> (jserror + nat) \<times> event list"
where
  "classify_loop net k loadingRetries timeoutRetried currentConfig =
     (case attemptClassification net k currentConfig of
        (Inr decision, k') \<Rightarrow>
          (Inr decision, [Attempt (timeoutMs currentConfig), Log Debug ''classifier decision''])
      | (Inl err, k') \<Rightarrow>
          (if isAbortError err \<and> \<not> timeoutRetried then
             (let retryTimeout = max (timeoutMs currentConfig * 2) 8000;
                  r = classify_loop net k' loadingRetries True
                        (currentConfig\<lparr>timeoutMs := retryTimeout\<rparr>)
              in (fst r, [Attempt (timeoutMs currentConfig),
                          Log Warn ''classifier timeout, retrying once''] @ snd r))
           else if isModelLoadingError err \<and> loadingRetries < maxRetries_of currentConfig then
             (let r = classify_loop net k' (loadingRetries + 1) timeoutRetried currentConfig
              in (fst r, [Attempt (timeoutMs currentConfig),
                          Log Warn ''classifier model loading, retrying'',
                          Sleep (delay_of currentConfig)] @ snd r))
           else (Inl err, [Attempt (timeoutMs currentConfig)])))"
  by pat_completeness auto
termination
  by (relation "measure (\<lambda>(net, k, loadingRetries, timeoutRetried, currentConfig).
         (if timeoutRetried then 0 else 1)
         + nat (maxRetries_of currentConfig - loadingRetries))")
     (auto simp: maxRetries_of_def)

declare classify_loop.simps [simp del]

text \<open>\<open>classifyRequest\<close>: the prompt is built first, outside the retry loop, so an
  error thrown there leaves at once.\<close>

definition classifyRequest ::
  "network \<Rightarrow> json \<Rightarrow> classifier_config \<Rightarrow> (jserror + nat) \<times> event list" where
  "classifyRequest net payload config =
     (case buildClassifierInput payload (c_strategy config) (c_maxChars config) of
        Inl err \<Rightarrow> (Inl err, [])
      | Inr input \<Rightarrow> classify_loop net 0 0 False config)"




section \<open>Configuration (config.js)\<close>

text \<open>An upstream descriptor. \<open>baseUrl\<close> and \<open>model\<close> default to \<open>null\<close>, the other
  strings to the empty string.\<close>

record upstream =
  u_name :: string
  u_provider :: string
  u_baseUrl :: "string option"
  u_apiKey :: string
  u_model :: "string option"
  u_apiVersion :: string
  u_deployment :: string

text \<open>The configuration object; a tier is \<open>None\<close> when the upstream file has \<open>null\<close> for it.\<close>

record router_config =
  routerApiKey :: string
  classifier :: classifier_config
  cache_enabled :: bool
  azureApiVersion :: string
  cheap :: "upstream option"
  medium :: "upstream option"
  frontier :: "upstream option"

definition normalizeBaseUrl :: "string option \<Rightarrow> string option" where
  "normalizeBaseUrl url = (case url of None \<Rightarrow> None | Some u \<Rightarrow> Some (strip_trailing_slashes u))"

text \<open>Truthiness of a string that may be \<open>null\<close>, and \<open>tier?.baseUrl\<close>.\<close>

definition nonempty :: "string option \<Rightarrow> bool" where
  "nonempty s = (case s of None \<Rightarrow> False | Some u \<Rightarrow> u \<noteq> [])"

definition tier_baseUrl :: "upstream option \<Rightarrow> string option" where
  "tier_baseUrl t = (case t of None \<Rightarrow> None | Some u \<Rightarrow> u_baseUrl u)"

text \<open>The co-location step at the end of config.js: the cheap model is overwritten when
  cheap and classifier share a base URL.\<close>

definition colocate :: "router_config \<Rightarrow> router_config" where
  "colocate config =
     (if c_enabled (classifier config) \<and> nonempty (tier_baseUrl (cheap config))
         \<and> nonempty (c_baseUrl (classifier config)) then
        (let cheapBase = normalizeBaseUrl (tier_baseUrl (cheap config));
             classifierBase = normalizeBaseUrl (c_baseUrl (classifier config))
         in if nonempty cheapBase \<and> nonempty classifierBase \<and> cheapBase = classifierBase
            then config\<lparr>cheap :=
                   map_option (\<lambda>u. u\<lparr>u_model := Some (c_model (classifier config))\<rparr>) (cheap config)\<rparr>
            else config)
      else config)"

text \<open>The module's last statements: co-location, then the four required-field checks,
  each of which throws. \<open>Inl\<close> carries the message of the thrown error.\<close>

definition load_config :: "router_config \<Rightarrow> string + router_config" where
  "load_config config0 =
     (let config = colocate config0
      in if c_enabled (classifier config) \<and> \<not> nonempty (c_baseUrl (classifier config))
           then Inl ''CLASSIFIER_BASE_URL is required''
         else if \<not> nonempty (tier_baseUrl (frontier config))
           then Inl ''FRONTIER_BASE_URL (or UPSTREAMS_JSON.frontier.baseUrl) is required''
         else if c_enabled (classifier config) \<and> \<not> nonempty (tier_baseUrl (cheap config))
           then Inl ''CHEAP_BASE_URL or CLASSIFIER_BASE_URL is required for cheap route''
         else if c_enabled (classifier config) \<and> \<not> nonempty (tier_baseUrl (medium config))
           then Inl ''MEDIUM_BASE_URL is required for medium route''
         else Inr config)"

section \<open>Routing entry point (server.js)\<close>

text \<open>The \<open>onRequest\<close> hook. \<open>Some (code, body)\<close> is the reply it sends, which ends the
  request; \<open>None\<close> lets the request through. The header is \<open>None\<close> when absent.\<close>

definition onRequest :: "router_config \<Rightarrow> string option \<Rightarrow> (nat \<times> json) option" where
  "onRequest config authorization =
     (if routerApiKey config = [] then None
      else
        (let auth = (case authorization of Some a \<Rightarrow> a | None \<Rightarrow> []);
             token = (if starts_with auth ''Bearer '' then drop 7 auth else auth)
         in if token \<noteq> routerApiKey config
            then Some (401, JObj [(''error'', JStr ''unauthorized'')])
            else None))"

datatype route = Cheap | Medium | Frontier

text \<open>How the handler ends: it sends a reply itself, or it calls the adapter of the
  chosen route with the decision (the adapter owns the response from there), or it
  throws.\<close>

datatype handler_result =
    Replied nat json
  | Dispatched route int
  | Threw jserror

text \<open>What surrounds one request: the digest, \<open>Number\<close> on a cached string (\<open>None\<close> is
  \<open>NaN\<close>; the cache holds digits, so the numbers are integers), the cache object and the
  classifier's network.\<close>

record env =
  sha256_hex :: "string \<Rightarrow> string"
  js_Number :: "string \<Rightarrow> int option"
  decision_cache :: cache
  classifier_net :: network

text \<open>The variable \<open>decision\<close> after the cache lookup: \<open>null\<close>, \<open>NaN\<close> or a number.\<close>

datatype decision_val = DNull | DNaN | DNum int

definition cache_lookup :: "env \<Rightarrow> router_config \<Rightarrow> string \<Rightarrow> jserror + decision_val" where
  "cache_lookup e config hash =
     (if cache_enabled config then
        (case cache_get (decision_cache e) hash of
           Inl err \<Rightarrow> Inl err
         | Inr None \<Rightarrow> Inr DNull
         | Inr (Some cached) \<Rightarrow>
             Inr (case js_Number e cached of None \<Rightarrow> DNaN | Some n \<Rightarrow> DNum n))
      else Inr DNull)"

definition route_of :: "int \<Rightarrow> route" where
  "route_of decision = (if decision = 0 then Cheap else if decision = 1 then Medium else Frontier)"

text \<open>\<open>return adapter({ ..., decision, route })\<close>.\<close>

definition dispatch :: "int \<Rightarrow> event list \<Rightarrow> handler_result \<times> event list" where
  "dispatch decision evs = (Dispatched (route_of decision) decision, evs)"

definition fallback_warning :: event where
  "fallback_warning = Log Warn ''classifier failed, falling back to frontier''"

text \<open>The \<open>try\<close> block of the handler: classify, then store. An error of either call
  lands in the same \<open>catch\<close>.\<close>

definition classify_and_store ::
  "env \<Rightarrow> router_config \<Rightarrow> json \<Rightarrow> string \<Rightarrow> handler_result \<times> event list" where
  "classify_and_store e config payload hash =
     (case classifyRequest (classifier_net e) payload (classifier config) of
        (Inl err, evs) \<Rightarrow> dispatch 2 (evs @ [fallback_warning])
      | (Inr decision, evs) \<Rightarrow>
          (if cache_enabled config then
             (case cache_set (decision_cache e) hash (show_nat decision) of
                Inl err \<Rightarrow> dispatch 2 (evs @ [fallback_warning])
              | Inr u \<Rightarrow> dispatch (int decision) evs)
           else dispatch (int decision) evs))"

definition invalid_request :: "handler_result \<times> event list" where
  "invalid_request = (Replied 400 (JObj [(''error'', JStr ''invalid_request'')]), [])"

text \<open>The handler of \<open>POST /v1/chat/completions\<close>; the body is \<open>None\<close> when the request
  has none.\<close>

definition chat_completions ::
  "env \<Rightarrow> router_config \<Rightarrow> json option \<Rightarrow> handler_result \<times> event list" where
  "chat_completions e config body =
     (case body of
        None \<Rightarrow> invalid_request
      | Some payload \<Rightarrow>
          (if \<not> truthy payload then invalid_request
           else if \<not> truthy_opt (get_prop payload ''messages'') then invalid_request
           else if \<not> c_enabled (classifier config) then dispatch 2 []
           else
             (let hash = hashPayload (sha256_hex e) payload
              in case cache_lookup e config hash of
                   Inl err \<Rightarrow> (Threw err, [])
                 | Inr (DNum decision) \<Rightarrow> dispatch decision []
                 | Inr DNull \<Rightarrow> classify_and_store e config payload hash
                 | Inr DNaN \<Rightarrow> classify_and_store e config payload hash)))"

text \<open>One request to \<open>POST /v1/chat/completions\<close>: the hook, the handler, and the error
  handler that turns a throw into a 500 reply.\<close>

definition post_chat_completions ::
  "env \<Rightarrow> router_config \<Rightarrow> string option \<Rightarrow> json option \<Rightarrow> handler_result \<times> event list" where
  "post_chat_completions e config authorization body =
     (case onRequest config authorization of
        Some (code, b) \<Rightarrow> (Replied code b, [])
      | None \<Rightarrow>
          (case chat_completions e config body of
             (Threw err, evs) \<Rightarrow>
               (Replied 500 (JObj [(''error'', JStr ''internal_error'')]),
                evs @ [Log Error ''request error''])
           | r \<Rightarrow> r))"

section \<open>Provider adapters\<close>

subsection \<open>Azure OpenAI (providers/azure_openai.js)\<close>







subsection \<open>Server-sent events (providers/sse.js)\<close>

text \<open>The lines of one read: what they yield, and whether \<open>[DONE]\<close> ended the generator.\<close>

fun sse_lines :: "string list \<Rightarrow> string list \<times> bool" where
  "sse_lines [] = ([], False)"
| "sse_lines (line # ls) =
     (let trimmed = js_trim line
      in if trimmed = [] \<or> starts_with trimmed '':'' then sse_lines ls
         else if starts_with trimmed ''data:'' then
           (let data = js_trim (drop 5 trimmed)
            in if data = ''[DONE]'' then ([], True)
               else (data # fst (sse_lines ls), snd (sse_lines ls)))
         else sse_lines ls)"

text \<open>\<open>readSse\<close> on the decoded chunks of the body, with the carried \<open>buffer\<close>.\<close>

fun readSse_from :: "string \<Rightarrow> string list \<Rightarrow> string list" where
  "readSse_from buffer [] = []"
| "readSse_from buffer (chunk # chunks) =
     (let lines = split_lines (buffer @ chunk);
          r = sse_lines (butlast lines)
      in if snd r then fst r else fst r @ readSse_from (last lines) chunks)"

definition readSse :: "string list option \<Rightarrow> string list" where
  "readSse body = (case body of None \<Rightarrow> [] | Some chunks \<Rightarrow> readSse_from [] chunks)"

subsection \<open>OpenAI-shaped output (providers/helpers.js)\<close>

text \<open>A write to the client: \<open>DataFrame j\<close> is the text \<open>data: <JSON of j>\<close> and a blank
  line, \<open>DoneFrame\<close> is \<open>data: [DONE]\<close> and a blank line.\<close>

datatype sse_frame = DataFrame json | DoneFrame

fun render_frame :: "sse_frame \<Rightarrow> string" where
  "render_frame (DataFrame j) = ''data: '' @ stringify j @ ''\<newline>\<newline>''"
| "render_frame DoneFrame = ''data: [DONE]\<newline>\<newline>''"

text \<open>The hijacked reply: the frames written so far, whether \<open>end()\<close> was called, and the
  usage objects handed to \<open>recordUsage\<close>.\<close>

record reply_stream =
  written :: "sse_frame list"
  ended :: bool
  usage_recorded :: "json list"

definition initOpenAiStream :: reply_stream where
  "initOpenAiStream = \<lparr> written = [], ended = False, usage_recorded = [] \<rparr>"

text \<open>The chunk of \<open>writeOpenAiChunk\<close>; the random id and the clock are parameters.\<close>

definition openai_chunk :: "string \<Rightarrow> jsint \<Rightarrow> json option \<Rightarrow> json \<Rightarrow> json" where
  "openai_chunk rid created model text =
     JObj [(''id'', JStr (''chatcmpl_'' @ rid)),
           (''object'', JStr ''chat.completion.chunk''),
           (''created'', JNum created),
           (''model'', or_default model (JStr ''unknown'')),
           (''choices'', JArr [JObj [(''index'', JNum 0),
                                     (''delta'', JObj [(''content'', text)]),
                                     (''finish_reason'', JNull)]])]"

text \<open>The n-th write draws the n-th random id and reads the clock the n-th time.\<close>

definition writeOpenAiChunk ::
  "(nat \<Rightarrow> string) \<Rightarrow> (nat \<Rightarrow> jsint) \<Rightarrow> reply_stream \<Rightarrow> json \<Rightarrow> json option \<Rightarrow> reply_stream" where
  "writeOpenAiChunk ids clock reply text model =
     (let n = length (written reply)
      in reply\<lparr>written := written reply @ [DataFrame (openai_chunk (ids n) (clock n) model text)]\<rparr>)"

definition writeOpenAiDone :: "reply_stream \<Rightarrow> reply_stream" where
  "writeOpenAiDone reply = reply\<lparr>written := written reply @ [DoneFrame], ended := True\<rparr>"

subsection \<open>Anthropic (providers/anthropic.js), streaming branch\<close>

text \<open>\<open>json?.message?.usage\<close> and \<open>json.delta?.text\<close>.\<close>

definition message_usage :: "json \<Rightarrow> json option" where
  "message_usage json =
     (case get_prop json ''message'' of
        None \<Rightarrow> None
      | Some m \<Rightarrow> (if m = JNull then None else get_prop m ''usage''))"

definition delta_text :: "json \<Rightarrow> json option" where
  "delta_text json =
     (case get_prop json ''delta'' of
        None \<Rightarrow> None
      | Some d \<Rightarrow> (if d = JNull then None else get_prop d ''text''))"

text \<open>The first statement of the loop body: the usage of a \<open>message_start\<close> event is
  recorded, once. The result is the new \<open>usageRecorded\<close> and the reply.\<close>

definition anthropic_usage :: "bool \<Rightarrow> json \<Rightarrow> reply_stream \<Rightarrow> bool \<times> reply_stream" where
  "anthropic_usage usageRecorded json reply =
     (case message_usage json of
        Some u \<Rightarrow>
          (if \<not> usageRecorded \<and> get_prop json ''type'' = Some (JStr ''message_start'')
              \<and> truthy u
           then (True, reply\<lparr>usage_recorded := usage_recorded reply @ [u]\<rparr>)
           else (usageRecorded, reply))
      | None \<Rightarrow> (usageRecorded, reply))"

text \<open>
  The \<open>for await\<close> loop over the data lines. \<open>parse\<close> is \<open>JSON.parse\<close> (\<open>None\<close> when it
  throws). A line that parses to \<open>null\<close> makes \<open>json.type\<close> throw, which leaves the loop
  and the adapter. The result is the reply with the error thrown, if any.
\<close>

fun anthropic_events ::
  "(string \<Rightarrow> json option) \<Rightarrow> (nat \<Rightarrow> string) \<Rightarrow> (nat \<Rightarrow> jsint) \<Rightarrow> json option \<Rightarrow>
   string list \<Rightarrow> bool \<Rightarrow> reply_stream \<Rightarrow> reply_stream \<times> jserror option"
where
  "anthropic_events parse ids clock model [] usageRecorded reply = (reply, None)"
| "anthropic_events parse ids clock model (data # rest) usageRecorded reply =
     (case parse data of
        None \<Rightarrow> anthropic_events parse ids clock model rest usageRecorded reply
      | Some json \<Rightarrow>
          (case anthropic_usage usageRecorded json reply of
             (usageRecorded1, reply1) \<Rightarrow>
               (if json = JNull
                  then (reply1,
                        Some (type_error ''Cannot read properties of null (reading 'type')''))
                else
                  (case delta_text json of
                     Some text \<Rightarrow>
                       (if get_prop json ''type'' = Some (JStr ''content_block_delta'')
                           \<and> truthy text
                        then anthropic_events parse ids clock model rest usageRecorded1
                               (writeOpenAiChunk ids clock reply1 text model)
                        else anthropic_events parse ids clock model rest usageRecorded1 reply1)
                   | None \<Rightarrow>
                       anthropic_events parse ids clock model rest usageRecorded1 reply1))))"

text \<open>\<open>body.model\<close> is \<open>upstream.model || payload.model\<close>.\<close>

definition anthropic_model :: "upstream \<Rightarrow> (string \<times> json) list \<Rightarrow> json option" where
  "anthropic_model up payload =
     (case u_model up of
        Some m \<Rightarrow> (if m \<noteq> [] then Some (JStr m) else map_of payload ''model'')
      | None \<Rightarrow> map_of payload ''model'')"

text \<open>The streaming branch of \<open>proxyAnthropic\<close>, from \<open>initOpenAiStream\<close> on; the argument
  \<open>res_body\<close> holds the decoded chunks of the upstream body (\<open>None\<close>: no body).\<close>

definition proxyAnthropic_stream ::
  "(string \<Rightarrow> json option) \<Rightarrow> (nat \<Rightarrow> string) \<Rightarrow> (nat \<Rightarrow> jsint) \<Rightarrow> upstream \<Rightarrow>
   (string \<times> json) list \<Rightarrow> string list option \<Rightarrow> reply_stream \<times> jserror option" where
  "proxyAnthropic_stream parse ids clock up payload res_body =
     (case anthropic_events parse ids clock (anthropic_model up payload)
             (readSse res_body) False initOpenAiStream of
        (reply, Some err) \<Rightarrow> (reply, Some err)
      | (reply, None) \<Rightarrow> (writeOpenAiDone reply, None))"

subsection \<open>The second helper module (\<open>coerceText\<close>, \<open>sendOpenAiStream\<close>)\<close>

text \<open>\<open>sendOpenAiStream\<close>: one content chunk, the closing chunk, then \<open>[DONE]\<close>. A model
  that is \<open>undefined\<close> is left out by \<open>JSON.stringify\<close>.\<close>

definition stream_chunk :: "string \<Rightarrow> jsint \<Rightarrow> json option \<Rightarrow> json \<Rightarrow> json \<Rightarrow> json" where
  "stream_chunk rid created model delta finish_reason =
     JObj ([(''id'', JStr (''chatcmpl_'' @ rid)),
            (''object'', JStr ''chat.completion.chunk''),
            (''created'', JNum created)]
           @ (case model of Some m \<Rightarrow> [(''model'', m)] | None \<Rightarrow> [])
           @ [(''choices'', JArr [JObj [(''index'', JNum 0),
                                        (''delta'', delta),
                                        (''finish_reason'', finish_reason)]])])"

definition sendOpenAiStream :: "string \<Rightarrow> jsint \<Rightarrow> json option \<Rightarrow> json \<Rightarrow> reply_stream" where
  "sendOpenAiStream rid created model text =
     \<lparr> written = [DataFrame (stream_chunk rid created model (JObj [(''content'', text)]) JNull),
                  DataFrame (stream_chunk rid created model (JObj []) (JStr ''stop'')),
                  DoneFrame],
       ended = True, usage_recorded = [] \<rparr>"

text \<open>\<open>coerceText\<close>. A part's own truthy property, read in the order \<open>text\<close>,
  \<open>input_text\<close>, \<open>content\<close> (the source's first two tests both return \<open>part.text\<close>);
  \<open>join("")\<close> turns what the callback returns into a string, which throws on some
  objects. \<open>None\<close> is that throw.\<close>

definition truthy_prop :: "json \<Rightarrow> string \<Rightarrow> json option" where
  "truthy_prop part k =
     (case get_prop part k of Some v \<Rightarrow> (if truthy v then Some v else None) | None \<Rightarrow> None)"

function coerceText_val :: "json \<Rightarrow> string option" where
  "coerceText_val JNull = Some []"
| "coerceText_val (JStr s) = Some s"
| "coerceText_val (JArr parts) =
     concat_options (map (\<lambda>part.
       if \<not> truthy part then Some []
       else (case part of
               JStr s \<Rightarrow> Some s
             | _ \<Rightarrow>
               (case truthy_prop part ''text'' of
                  Some t \<Rightarrow> js_toString t
                | None \<Rightarrow>
                    (case truthy_prop part ''input_text'' of
                       Some i \<Rightarrow> js_toString i
                     | None \<Rightarrow>
                         (case truthy_prop part ''content'' of
                            Some c \<Rightarrow> coerceText_val c
                          | None \<Rightarrow> Some []))))) parts)"
| "coerceText_val (JBool b) = Some (stringify (JBool b))"
| "coerceText_val (JNum n) = Some (stringify (JNum n))"
| "coerceText_val (JObj ms) = Some (stringify (JObj ms))"
  by pat_completeness auto
termination
proof -
  have lookup: "map_of ms k = Some v \<Longrightarrow> size v < Suc (size_list (size_prod (\<lambda>_. 0) size) ms)"
    for ms :: "(string \<times> json) list" and k v
    by (induction ms) (auto split: if_splits)
  have elem: "x \<in> set xs \<Longrightarrow> size x < Suc (size_list size xs)" for x :: json and xs
    by (induction xs) auto
  have field: "size c < size part" if "truthy_prop part k = Some c" for part k c
  proof -
    from that have "get_prop part k = Some c"
      by (auto simp: truthy_prop_def split: option.splits if_splits)
    then show ?thesis
      by (cases part) (auto dest: lookup)
  qed
  have smaller: "size c < Suc (size_list size parts)"
    if "part \<in> set parts" and "truthy_prop part k = Some c" for parts part k c
    using elem [OF that(1)] field [OF that(2)] by simp
  show ?thesis
    by (relation "measure size") (auto intro: smaller)
qed

definition coerceText :: "json option \<Rightarrow> string option" where
  "coerceText content = (case content of None \<Rightarrow> Some [] | Some v \<Rightarrow> coerceText_val v)"

section \<open>The stream order of the specification\<close>

text \<open>The order the specification gives for a translated stream, as a test on the
  frames written: one or more chunks of object \<open>chat.completion.chunk\<close> with a
  non-empty \<open>delta.content\<close>, then one chunk with an empty \<open>delta\<close> and
  \<open>finish_reason\<close> \<open>stop\<close>, then the \<open>[DONE]\<close> line.\<close>

definition first_choice :: "json \<Rightarrow> json option" where
  "first_choice chunk =
     (case get_prop chunk ''choices'' of Some (JArr (c # cs)) \<Rightarrow> Some c | _ \<Rightarrow> None)"

definition is_content_chunk :: "json \<Rightarrow> bool" where
  "is_content_chunk chunk =
     (get_prop chunk ''object'' = Some (JStr ''chat.completion.chunk'')
      \<and> (case first_choice chunk of
            Some c \<Rightarrow> (case get_prop c ''delta'' of
                         Some d \<Rightarrow> truthy_opt (get_prop d ''content'')
                       | None \<Rightarrow> False)
          | None \<Rightarrow> False))"

definition is_terminator_chunk :: "json \<Rightarrow> bool" where
  "is_terminator_chunk chunk =
     (case first_choice chunk of
        Some c \<Rightarrow> get_prop c ''delta'' = Some (JObj [])
                  \<and> get_prop c ''finish_reason'' = Some (JStr ''stop'')
      | None \<Rightarrow> False)"

fun content_frame :: "sse_frame \<Rightarrow> bool" where
  "content_frame (DataFrame chunk) = is_content_chunk chunk"
| "content_frame DoneFrame = False"

fun terminator_frame :: "sse_frame \<Rightarrow> bool" where
  "terminator_frame (DataFrame chunk) = is_terminator_chunk chunk"
| "terminator_frame DoneFrame = False"

definition claimed_frame_order :: "sse_frame list \<Rightarrow> bool" where
  "claimed_frame_order fs =
     (3 \<le> length fs
      \<and> list_all content_frame (butlast (butlast fs))
      \<and> terminator_frame (last (butlast fs))
      \<and> last fs = DoneFrame)"

section \<open>Example values\<close>

text \<open>A string between double quotes, to write JSON text down.\<close>

definition quoted :: "string \<Rightarrow> string" where
  "quoted s = dquote # s @ [dquote]"

text \<open>The error a fired \<open>AbortController\<close> makes \<open>fetch\<close> reject with.\<close>

definition timeout_abort :: jserror where
  "timeout_abort =
     \<lparr> err_name = ''AbortError'', err_code = NumCode 20,
       err_message = ''This operation was aborted'', err_body = None \<rparr>"

text \<open>A configuration with the classifier defaults of config.js, a local classifier that
  the cheap tier shares, a router key and three upstreams.\<close>

definition example_classifier :: classifier_config where
  "example_classifier =
     \<lparr> c_enabled = True, c_baseUrl = Some ''http://localhost:11434'',
       c_model = ''meta-llama/Meta-Llama-3.1-8B-Instruct'',
       c_strategy = ''last_user'', c_maxChars = 8000, timeoutMs = 800, forceStream = True,
       loadingMaxRetries = Some 2, loadingRetryMs = Some 1200 \<rparr>"

definition example_upstream :: "string \<Rightarrow> string \<Rightarrow> string option \<Rightarrow> upstream" where
  "example_upstream name url model =
     \<lparr> u_name = name, u_provider = [], u_baseUrl = Some url, u_apiKey = [],
       u_model = model, u_apiVersion = [], u_deployment = [] \<rparr>"

definition example_config :: router_config where
  "example_config =
     \<lparr> routerApiKey = ''secret'', classifier = example_classifier, cache_enabled = True,
       azureApiVersion = ''2024-10-21'',
       cheap = Some (example_upstream ''cheap'' ''http://localhost:11434/'' (Some ''phi-3'')),
       medium = Some (example_upstream ''medium'' ''https://api.mistral.ai'' None),
       frontier = Some (example_upstream ''frontier'' ''https://api.openai.com'' None) \<rparr>"

definition example_payload :: json where
  "example_payload =
     JObj [(''model'', JStr ''gpt-4o''),
           (''messages'', JArr [JObj [(''role'', JStr ''user''), (''content'', JStr ''2+2?'')]]),
           (''temperature'', JNum 1),
           (''stream'', JBool True)]"

text \<open>A Redis client whose connection is lost: both calls reject.\<close>

definition redis_down :: redis_client where
  "redis_down =
     \<lparr> redis_get = (\<lambda>key. Inl \<lparr> err_name = ''Error'', err_code = NoCode,
                                   err_message = ''The client is closed'', err_body = None \<rparr>),
       redis_setEx = (\<lambda>key ttl v. Inl \<lparr> err_name = ''Error'', err_code = NoCode,
                                         err_message = ''The client is closed'', err_body = None \<rparr>) \<rparr>"

text \<open>A Redis client that answers reads with a miss and rejects writes.\<close>

definition redis_readonly :: redis_client where
  "redis_readonly =
     \<lparr> redis_get = (\<lambda>key. Inr None),
       redis_setEx = (\<lambda>key ttl v. Inl \<lparr> err_name = ''Error'', err_code = NoCode,
                                         err_message = ''READONLY'', err_body = None \<rparr>) \<rparr>"

text \<open>A Redis client that answers reads with a miss and accepts writes.\<close>

definition redis_up :: redis_client where
  "redis_up = \<lparr> redis_get = (\<lambda>key. Inr None), redis_setEx = (\<lambda>key ttl v. Inr ()) \<rparr>"

text \<open>Three events of an Anthropic stream: the start with its usage, and two deltas.\<close>

definition anthropic_start :: json where
  "anthropic_start =
     JObj [(''type'', JStr ''message_start''),
           (''message'', JObj [(''usage'', JObj [(''input_tokens'', JNum 5),
                                                 (''output_tokens'', JNum 0)])])]"

definition anthropic_delta :: "string \<Rightarrow> json" where
  "anthropic_delta text =
     JObj [(''type'', JStr ''content_block_delta''),
           (''delta'', JObj [(''type'', JStr ''text_delta''), (''text'', JStr text)])]"

text \<open>Stand-ins for the library functions in the examples: the digest as the identity,
  \<open>Number\<close> on the three digits the router stores, and a URL edit that is never reached.\<close>

definition example_digest :: "string \<Rightarrow> string" where
  "example_digest s = s"

definition digit_Number :: "string \<Rightarrow> int option" where
  "digit_Number s =
     (if s = ''0'' then Some 0 else if s = ''1'' then Some 1 else if s = ''2'' then Some 2
      else None)"


text \<open>A network that gives every call the same answer.\<close>

definition always :: "fetch_result \<Rightarrow> network" where
  "always r = (\<lambda>k timeout stream. r)"


definition example_env :: "cache \<Rightarrow> network \<Rightarrow> env" where
  "example_env c net =
     \<lparr> sha256_hex = example_digest, js_Number = digit_Number,
       decision_cache = c, classifier_net = net \<rparr>"

text \<open>What \<open>example_config\<close> loads as: the cheap model is the classifier's.\<close>

definition loaded_example :: router_config where
  "loaded_example =
     example_config
       \<lparr> cheap := Some (example_upstream ''cheap'' ''http://localhost:11434/''
                          (Some ''meta-llama/Meta-Llama-3.1-8B-Instruct'')) \<rparr>"

text \<open>A configuration whose cheap and classifier base URLs are both a single slash.\<close>

definition slash_config :: router_config where
  "slash_config =
     example_config
       \<lparr> classifier := example_classifier\<lparr>c_baseUrl := Some ''/''\<rparr>,
         cheap := Some (example_upstream ''cheap'' ''/'' (Some ''phi-3'')) \<rparr>"


text \<open>The upstream body of the specification's Anthropic scenario in two reads, the
  JSON parser on its three data lines, the random ids and the clock.\<close>

definition anthropic_body :: "string list" where
  "anthropic_body =
     [''event: message_start\<newline>data: '' @ stringify anthropic_start @ ''\<newline>\<newline>event: content'',
      ''_block_delta\<newline>data: '' @ stringify (anthropic_delta ''Hi'') @ ''\<newline>\<newline>''
        @ ''event: content_block_delta\<newline>data: '' @ stringify (anthropic_delta '' there'')
        @ ''\<newline>\<newline>'']"

definition example_parse :: "string \<Rightarrow> json option" where
  "example_parse =
     map_of [(stringify anthropic_start, anthropic_start),
             (stringify (anthropic_delta ''Hi''), anthropic_delta ''Hi''),
             (stringify (anthropic_delta '' there''), anthropic_delta '' there'')]"

definition example_ids :: "nat \<Rightarrow> string" where
  "example_ids n = ''k3j'' @ show_nat n"

definition example_clock :: "nat \<Rightarrow> jsint" where
  "example_clock n = 1700000000"

section \<open>Text coercion and fingerprint\<close>

text \<open>What \<open>coerceContent\<close> returns, case by case: an array is serialized like any other
  value that is not a string.\<close>

lemma coerceContent_cases:
  "coerceContent None = []"
  "coerceContent (Some JNull) = []"
  "coerceContent (Some (JStr s)) = s"
  "coerceContent (Some (JArr parts)) = stringify (JArr parts)"
  "coerceContent (Some (JObj ms)) = stringify (JObj ms)"
  by simp_all

text \<open>
  Claim C3. \<open>coerceContent\<close> is said to return the empty string for \<open>null\<close> and
  \<open>undefined\<close>, a string unchanged, and for an array of parts the concatenation of the
  parts' texts. On the one-part array \<open>[{"type":"text","text":"hi"}]\<close> the function of
  utils.js returns the JSON text of the array; \<open>coerceText\<close> of the second helper module
  returns \<open>hi\<close>, the text the claim describes.
\<close>

theorem coerceContent_serializes_part_array:
  "coerceContent (Some (JArr [JObj [(''type'', JStr ''text''), (''text'', JStr ''hi'')]]))
     = ''[{'' @ quoted ''type'' @ '':'' @ quoted ''text'' @ '','' @ quoted ''text'' @ '':''
       @ quoted ''hi'' @ ''}]''
   \<and> coerceText (Some (JArr [JObj [(''type'', JStr ''text''), (''text'', JStr ''hi'')]]))
       = Some ''hi''"
  by (simp add: json_quote_def json_escape_def coerceText_def truthy_prop_def quoted_def)

text \<open>
  Claim C4. Two payloads with the same \<open>messages\<close>, \<open>tools\<close>, \<open>tool_choice\<close> and
  \<open>response_format\<close> have the same fingerprint, whatever else they hold (model, stream
  flag, sampling parameters) and whatever the digest function is.
\<close>

theorem hashPayload_depends_on_four_fields:
  assumes "get_prop P ''messages'' = get_prop P' ''messages''"
    and "get_prop P ''tools'' = get_prop P' ''tools''"
    and "get_prop P ''tool_choice'' = get_prop P' ''tool_choice''"
    and "get_prop P ''response_format'' = get_prop P' ''response_format''"
  shows "hashPayload sha256 P = hashPayload sha256 P'"
  using assms by (simp add: hashPayload_def hashPayload_input_def)

theorem hashPayload_depends_on_four_fields_witness:
  "\<forall>sha256.
     hashPayload sha256 example_payload
     = hashPayload sha256
         (JObj [(''stream'', JBool False),
                (''messages'', JArr [JObj [(''role'', JStr ''user''), (''content'', JStr ''2+2?'')]]),
                (''model'', JStr ''claude''),
                (''top_p'', JNum 0)])"
proof
  fix sha256 :: "string \<Rightarrow> string"
  show "hashPayload sha256 example_payload
     = hashPayload sha256
         (JObj [(''stream'', JBool False),
                (''messages'', JArr [JObj [(''role'', JStr ''user''), (''content'', JStr ''2+2?'')]]),
                (''model'', JStr ''claude''),
                (''top_p'', JNum 0)])"
    by (rule hashPayload_depends_on_four_fields) (simp_all add: example_payload_def)
qed

section \<open>The bearer gate\<close>

lemma starts_with_split: "starts_with a p \<Longrightarrow> a = p @ drop (length p) a"
  by (induction a p rule: starts_with.induct) auto

text \<open>
  Claim C8, as amended. With a router key configured, the hook lets a request through
  exactly when its authorization header is \<open>Bearer <key>\<close>, or is the bare key (and the
  key does not itself begin with \<open>Bearer \<close>); every other request, one without the header
  included, is answered 401 \<open>unauthorized\<close>.
\<close>

theorem onRequest_gate:
  assumes "routerApiKey config \<noteq> []"
  shows "onRequest config authorization =
     (if authorization = Some (''Bearer '' @ routerApiKey config)
         \<or> (authorization = Some (routerApiKey config)
             \<and> \<not> starts_with (routerApiKey config) ''Bearer '')
      then None
      else Some (401, JObj [(''error'', JStr ''unauthorized'')]))"
proof (cases authorization)
  case None
  with assms show ?thesis
    by (auto simp: onRequest_def)
next
  case (Some a)
  show ?thesis
  proof (cases "starts_with a ''Bearer ''")
    case True
    from starts_with_split [OF True] have "a = ''Bearer '' @ drop 7 a"
      by (simp add: eval_nat_numeral)
    then have "(drop 7 a = routerApiKey config) = (a = ''Bearer '' @ routerApiKey config)"
      by (metis append_eq_conv_conj length_Cons list.size(3) same_append_eq)
    with Some True assms show ?thesis
      by (auto simp: onRequest_def)
  next
    case False
    have "\<not> starts_with (''Bearer '' @ k) ''Bearer ''" if "a = ''Bearer '' @ k" for k
      using False that by simp
    with Some False assms show ?thesis
      by (auto simp: onRequest_def)
  qed
qed

theorem onRequest_gate_witness:
  "routerApiKey example_config \<noteq> []
   \<and> onRequest example_config (Some ''Bearer secret'') = None
   \<and> onRequest example_config (Some ''Bearer guess'')
       = Some (401, JObj [(''error'', JStr ''unauthorized'')])
   \<and> onRequest example_config None = Some (401, JObj [(''error'', JStr ''unauthorized'')])"
proof -
  have key: "routerApiKey example_config \<noteq> []"
    by (simp add: example_config_def)
  show ?thesis
    using key onRequest_gate [OF key, of "Some ''Bearer secret''"]
      onRequest_gate [OF key, of "Some ''Bearer guess''"]
      onRequest_gate [OF key, of None]
    by (simp add: example_config_def)
qed

text \<open>The claim as first stated fails: the bare key is not \<open>Bearer <key>\<close>, and passes.\<close>

theorem onRequest_bare_key_counterexample:
  "routerApiKey example_config \<noteq> []
   \<and> Some ''secret'' \<noteq> Some (''Bearer '' @ routerApiKey example_config)
   \<and> onRequest example_config (Some ''secret'') = None"
  by (simp add: example_config_def onRequest_def)

section \<open>Co-location of cheap and classifier\<close>

lemma colocate_classifier: "classifier (colocate config0) = classifier config0"
  by (simp add: colocate_def Let_def)

lemma colocate_cheap_url: "tier_baseUrl (cheap (colocate config0)) = tier_baseUrl (cheap config0)"
  by (cases "cheap config0") (simp_all add: colocate_def Let_def tier_baseUrl_def)

lemma load_config_colocate: "load_config config0 = Inr config \<Longrightarrow> config = colocate config0"
  by (simp add: load_config_def Let_def split: if_splits)

text \<open>
  Claim C7, as amended. After the configuration has loaded, if the classifier is
  enabled and the cheap base URL and the classifier base URL are equal once their
  trailing slashes are stripped, and what is left is not empty, then the cheap model
  is the classifier model, whatever cheap model was configured.
\<close>

theorem colocated_cheap_uses_classifier_model:
  assumes "load_config config0 = Inr config"
    and "c_enabled (classifier config)"
    and "normalizeBaseUrl (tier_baseUrl (cheap config))
           = normalizeBaseUrl (c_baseUrl (classifier config))"
    and "nonempty (normalizeBaseUrl (tier_baseUrl (cheap config)))"
  shows "\<exists>c. cheap config = Some c \<and> u_model c = Some (c_model (classifier config))"
proof -
  have cfg: "config = colocate config0"
    using assms(1) by (rule load_config_colocate)
  have enabled: "c_enabled (classifier config0)"
    using assms(2) by (simp add: cfg colocate_classifier)
  have same: "normalizeBaseUrl (tier_baseUrl (cheap config0))
                = normalizeBaseUrl (c_baseUrl (classifier config0))"
    using assms(3) by (simp add: cfg colocate_classifier colocate_cheap_url)
  have ne: "nonempty (normalizeBaseUrl (tier_baseUrl (cheap config0)))"
    using assms(4) by (simp add: cfg colocate_cheap_url)
  from ne obtain c0 b where c0: "cheap config0 = Some c0" and b: "u_baseUrl c0 = Some b"
    and sb: "strip_trailing_slashes b \<noteq> []"
    by (cases "cheap config0")
       (auto simp: tier_baseUrl_def nonempty_def normalizeBaseUrl_def split: option.splits)
  from sb have b_ne: "b \<noteq> []"
    by (auto simp: strip_trailing_slashes_def)
  from same c0 b obtain cb where cb: "c_baseUrl (classifier config0) = Some cb"
    and eq: "strip_trailing_slashes cb = strip_trailing_slashes b"
    by (cases "c_baseUrl (classifier config0)")
       (auto simp: tier_baseUrl_def normalizeBaseUrl_def)
  from eq sb have "strip_trailing_slashes cb \<noteq> []"
    by simp
  then have cb_ne: "cb \<noteq> []"
    by (auto simp: strip_trailing_slashes_def)
  have "colocate config0 =
      config0\<lparr>cheap := Some (c0\<lparr>u_model := Some (c_model (classifier config0))\<rparr>)\<rparr>"
    using enabled c0 b b_ne cb cb_ne eq sb
    by (simp add: colocate_def Let_def tier_baseUrl_def nonempty_def normalizeBaseUrl_def)
  then show ?thesis
    by (simp add: cfg)
qed

theorem colocated_cheap_uses_classifier_model_witness:
  "load_config example_config = Inr loaded_example
   \<and> c_enabled (classifier loaded_example)
   \<and> normalizeBaseUrl (tier_baseUrl (cheap loaded_example))
       = normalizeBaseUrl (c_baseUrl (classifier loaded_example))
   \<and> nonempty (normalizeBaseUrl (tier_baseUrl (cheap loaded_example)))
   \<and> (\<exists>c. cheap loaded_example = Some c
            \<and> u_model c = Some (c_model (classifier loaded_example)))"
proof -
  have h1: "load_config example_config = Inr loaded_example"
    by (simp add: loaded_example_def example_config_def example_classifier_def
          example_upstream_def load_config_def colocate_def tier_baseUrl_def nonempty_def
          normalizeBaseUrl_def strip_trailing_slashes_def Let_def)
  have h2: "c_enabled (classifier loaded_example)"
    by (simp add: loaded_example_def example_config_def example_classifier_def)
  have h3: "normalizeBaseUrl (tier_baseUrl (cheap loaded_example))
              = normalizeBaseUrl (c_baseUrl (classifier loaded_example))"
    by (simp add: loaded_example_def example_config_def example_classifier_def
          example_upstream_def tier_baseUrl_def normalizeBaseUrl_def strip_trailing_slashes_def)
  have h4: "nonempty (normalizeBaseUrl (tier_baseUrl (cheap loaded_example)))"
    by (simp add: loaded_example_def example_config_def example_upstream_def tier_baseUrl_def
          nonempty_def normalizeBaseUrl_def strip_trailing_slashes_def)
  from colocated_cheap_uses_classifier_model [OF h1 h2 h3 h4] h1 h2 h3 h4
  show ?thesis
    by blast
qed

text \<open>The claim as first stated fails when both base URLs consist of slashes only:
  the configuration loads, the stripped URLs are equal (both empty), and the cheap
  model stays as configured.\<close>

theorem colocation_slash_counterexample:
  "load_config slash_config = Inr slash_config
   \<and> c_enabled (classifier slash_config)
   \<and> normalizeBaseUrl (tier_baseUrl (cheap slash_config))
       = normalizeBaseUrl (c_baseUrl (classifier slash_config))
   \<and> map_option u_model (cheap slash_config) = Some (Some ''phi-3'')
   \<and> c_model (classifier slash_config) = ''meta-llama/Meta-Llama-3.1-8B-Instruct''"
  by (simp add: slash_config_def example_config_def example_classifier_def
        example_upstream_def load_config_def colocate_def tier_baseUrl_def nonempty_def
        normalizeBaseUrl_def strip_trailing_slashes_def Let_def)

section \<open>Azure URL and body\<close>






text \<open>An API version made of unreserved characters, such as \<open>2024-10-21\<close>, is its own
  encoding.\<close>

lemma encodeURIComponent_unreserved: "list_all uri_unreserved s \<Longrightarrow> encodeURIComponent s = s"
  by (induction s) (auto simp: encodeURIComponent_def encode_char_def Let_def)




section \<open>The classifier's retry policy\<close>













section \<open>The routing handler\<close>

lemma cache_lookup_disabled: "\<not> cache_enabled config \<Longrightarrow> cache_lookup e config h = Inr DNull"
  by (simp add: cache_lookup_def)

lemma cache_lookup_miss:
  "cache_get (decision_cache e) h = Inr None \<Longrightarrow> cache_lookup e config h = Inr DNull"
  by (simp add: cache_lookup_def)

text \<open>Each kind of classifier failure is a rejection of \<open>classifyRequest\<close>: a second
  timeout, model loading beyond the retries allowed, no digit from either transport,
  an HTTP error status, and a body that does not parse.\<close>

lemma classifyRequest_failure_kinds:
  "fst (classifyRequest (always (FetchRejected timeout_abort)) example_payload example_classifier)
     = Inl timeout_abort"
  "fst (classifyRequest (always (HttpNotOk 503 (Inr ''loading model''))) example_payload
          example_classifier)
     = Inl (model_loading_error 503 ''loading model'')"
  "fst (classifyRequest (always (HttpOk (Inr None))) example_payload example_classifier)
     = Inl no_decision_error"
  "fst (classifyRequest (always (HttpNotOk 500 (Inr ''boom''))) example_payload example_classifier)
     = Inl (classifier_http_error 500 ''boom'')"
  "fst (classifyRequest (always (HttpOk (Inl (type_error ''Unexpected token'')))) example_payload
          example_classifier)
     = Inl (type_error ''Unexpected token'')"
  by code_simp+

text \<open>
  Claim C1. A request with a (truthy) \<open>messages\<close> field passes the gate; the
  classifier is enabled; the cache answers with a miss, or caching is disabled; and
  \<open>classifyRequest\<close> rejects, with whatever error. Then the request ends in the call of
  the frontier adapter with decision 2, the warning is the last thing logged, and the
  handler neither replies with an error nor throws.
\<close>

theorem classifier_failure_routes_to_frontier:
  assumes "truthy payload" and "truthy_opt (get_prop payload ''messages'')"
    and "onRequest config authorization = None"
    and "c_enabled (classifier config)"
    and "cache_get (decision_cache e) (hashPayload (sha256_hex e) payload) = Inr None
         \<or> \<not> cache_enabled config"
    and "classifyRequest (classifier_net e) payload (classifier config) = (Inl err, evs)"
  shows "post_chat_completions e config authorization (Some payload)
          = (Dispatched Frontier 2, evs @ [fallback_warning])"
proof -
  have "cache_lookup e config (hashPayload (sha256_hex e) payload) = Inr DNull"
    using assms(5) cache_lookup_disabled cache_lookup_miss by blast
  then have "chat_completions e config (Some payload)
               = (Dispatched Frontier 2, evs @ [fallback_warning])"
    using assms(1,2,4,6)
    by (simp add: chat_completions_def classify_and_store_def dispatch_def route_of_def)
  then show ?thesis
    using assms(3) by (simp add: post_chat_completions_def)
qed

theorem classifier_failure_routes_to_frontier_witness:
  "truthy example_payload
   \<and> truthy_opt (get_prop example_payload ''messages'')
   \<and> onRequest example_config (Some ''Bearer secret'') = None
   \<and> c_enabled (classifier example_config)
   \<and> cache_get (MemoryCache (\<lambda>key. None)) (hashPayload example_digest example_payload)
       = Inr None
   \<and> classifyRequest (always (FetchRejected timeout_abort)) example_payload example_classifier
       = (Inl timeout_abort,
          [Attempt 800, Log Warn ''classifier timeout, retrying once'', Attempt 8000])
   \<and> post_chat_completions
         (example_env (MemoryCache (\<lambda>key. None)) (always (FetchRejected timeout_abort)))
         example_config (Some ''Bearer secret'') (Some example_payload)
       = (Dispatched Frontier 2,
          [Attempt 800, Log Warn ''classifier timeout, retrying once'', Attempt 8000,
           Log Warn ''classifier failed, falling back to frontier''])"
proof -
  let ?e = "example_env (MemoryCache (\<lambda>key. None)) (always (FetchRejected timeout_abort))"
  have h1: "truthy example_payload"
    and h2: "truthy_opt (get_prop example_payload ''messages'')"
    by (simp_all add: example_payload_def)
  have h3: "onRequest example_config (Some ''Bearer secret'') = None"
    by (simp add: onRequest_def example_config_def)
  have h4: "c_enabled (classifier example_config)"
    by (simp add: example_config_def example_classifier_def)
  have h5: "cache_get (MemoryCache (\<lambda>key. None)) (hashPayload example_digest example_payload)
              = Inr None"
    by simp
  have h6: "classifyRequest (always (FetchRejected timeout_abort)) example_payload
              example_classifier
            = (Inl timeout_abort,
               [Attempt 800, Log Warn ''classifier timeout, retrying once'', Attempt 8000])"
    by code_simp
  have env: "decision_cache ?e = MemoryCache (\<lambda>key. None)" "sha256_hex ?e = example_digest"
    "classifier_net ?e = always (FetchRejected timeout_abort)"
    "classifier example_config = example_classifier"
    by (simp_all add: example_env_def example_config_def)
  from classifier_failure_routes_to_frontier
         [of example_payload example_config "Some ''Bearer secret''" ?e timeout_abort
             "[Attempt 800, Log Warn ''classifier timeout, retrying once'', Attempt 8000]"]
       h1 h2 h3 h4 h5 h6
  have "post_chat_completions ?e example_config (Some ''Bearer secret'') (Some example_payload)
        = (Dispatched Frontier 2,
           [Attempt 800, Log Warn ''classifier timeout, retrying once'', Attempt 8000,
            Log Warn ''classifier failed, falling back to frontier''])"
    unfolding env by (simp add: fallback_warning_def)
  with h1 h2 h3 h4 h5 h6 show ?thesis
    by blast
qed

text \<open>
  Claim C10. The classifier is enabled and so is the cache; the lookup gives no usable
  decision (a miss, or an entry that is not a number); \<open>classifyRequest\<close> returns 0 or
  1; and storing the digit throws. Then the request ends in the call of the frontier
  adapter with decision 2, after the fallback warning, although the classifier chose
  another route.
\<close>

theorem failed_store_discards_decision:
  assumes "truthy payload" and "truthy_opt (get_prop payload ''messages'')"
    and "c_enabled (classifier config)" and "cache_enabled config"
    and "cache_lookup e config (hashPayload (sha256_hex e) payload) = Inr DNull
         \<or> cache_lookup e config (hashPayload (sha256_hex e) payload) = Inr DNaN"
    and "classifyRequest (classifier_net e) payload (classifier config) = (Inr d, evs)"
    and "d = 0 \<or> d = 1"
    and "cache_set (decision_cache e) (hashPayload (sha256_hex e) payload) (show_nat d) = Inl err"
  shows "chat_completions e config (Some payload)
           = (Dispatched Frontier 2, evs @ [fallback_warning])
         \<and> route_of (int d) \<noteq> Frontier"
  using assms
  by (auto simp: chat_completions_def classify_and_store_def dispatch_def route_of_def)

theorem failed_store_discards_decision_witness:
  "truthy example_payload
   \<and> truthy_opt (get_prop example_payload ''messages'')
   \<and> c_enabled (classifier example_config)
   \<and> cache_enabled example_config
   \<and> cache_lookup
         (example_env (new_RedisCache redis_readonly 3600000) (always (HttpOk (Inr (Some 0)))))
         example_config (hashPayload example_digest example_payload) = Inr DNull
   \<and> classifyRequest (always (HttpOk (Inr (Some 0)))) example_payload example_classifier
       = (Inr 0, [Attempt 800, Log Debug ''classifier decision''])
   \<and> (\<exists>err. cache_set (new_RedisCache redis_readonly 3600000)
                (hashPayload example_digest example_payload) (show_nat 0) = Inl err)
   \<and> chat_completions
         (example_env (new_RedisCache redis_readonly 3600000) (always (HttpOk (Inr (Some 0)))))
         example_config (Some example_payload)
       = (Dispatched Frontier 2,
          [Attempt 800, Log Debug ''classifier decision'',
           Log Warn ''classifier failed, falling back to frontier''])
   \<and> route_of 0 = Cheap"
proof -
  let ?c = "new_RedisCache redis_readonly 3600000"
  let ?e = "example_env ?c (always (HttpOk (Inr (Some 0))))"
  let ?err = "\<lparr> err_name = ''Error'', err_code = NoCode,
                 err_message = ''READONLY'', err_body = None \<rparr>"
  have h1: "truthy example_payload"
    and h2: "truthy_opt (get_prop example_payload ''messages'')"
    by (simp_all add: example_payload_def)
  have h3: "c_enabled (classifier example_config)" and h4: "cache_enabled example_config"
    by (simp_all add: example_config_def example_classifier_def)
  have env: "decision_cache ?e = ?c" "sha256_hex ?e = example_digest"
    "classifier_net ?e = always (HttpOk (Inr (Some 0)))"
    "classifier example_config = example_classifier"
    by (simp_all add: example_env_def example_config_def)
  have h5: "cache_lookup ?e example_config (hashPayload example_digest example_payload)
              = Inr DNull"
    by (simp add: cache_lookup_def h4 example_env_def new_RedisCache_def redis_readonly_def)
  have h6: "classifyRequest (always (HttpOk (Inr (Some 0)))) example_payload example_classifier
              = (Inr 0, [Attempt 800, Log Debug ''classifier decision''])"
    by code_simp
  have h8: "cache_set ?c (hashPayload example_digest example_payload) (show_nat 0) = Inl ?err"
    by (simp add: new_RedisCache_def redis_readonly_def)
  from failed_store_discards_decision
         [of example_payload example_config ?e 0
             "[Attempt 800, Log Debug ''classifier decision'']" ?err]
       h1 h2 h3 h4 h5 h6 h8
  have "chat_completions ?e example_config (Some example_payload)
          = (Dispatched Frontier 2,
             [Attempt 800, Log Debug ''classifier decision'',
              Log Warn ''classifier failed, falling back to frontier''])"
    unfolding env by (simp add: fallback_warning_def)
  moreover have "route_of 0 = Cheap"
    by (simp add: route_of_def)
  ultimately show ?thesis
    using h1 h2 h3 h4 h5 h6 h8 by blast
qed

text \<open>
  Claim C5. Errors of the cache's \<open>get\<close> and \<open>set\<close> are said never to change the
  response. The same request against three Redis clients: with a client that answers,
  the classifier's choice (cheap) is served; with a client whose \<open>get\<close> rejects, the
  handler throws and the client gets 500 \<open>internal_error\<close>; with a client whose
  \<open>setEx\<close> rejects, the request goes to frontier.
\<close>

theorem cache_errors_change_response:
  "post_chat_completions
       (example_env (new_RedisCache redis_up 3600000) (always (HttpOk (Inr (Some 0)))))
       example_config (Some ''Bearer secret'') (Some example_payload)
     = (Dispatched Cheap 0, [Attempt 800, Log Debug ''classifier decision''])
   \<and> post_chat_completions
       (example_env (new_RedisCache redis_down 3600000) (always (HttpOk (Inr (Some 0)))))
       example_config (Some ''Bearer secret'') (Some example_payload)
     = (Replied 500 (JObj [(''error'', JStr ''internal_error'')]), [Log Error ''request error''])
   \<and> post_chat_completions
       (example_env (new_RedisCache redis_readonly 3600000) (always (HttpOk (Inr (Some 0)))))
       example_config (Some ''Bearer secret'') (Some example_payload)
     = (Dispatched Frontier 2,
        [Attempt 800, Log Debug ''classifier decision'',
         Log Warn ''classifier failed, falling back to frontier''])"
  by code_simp

section \<open>The translated stream\<close>

lemma chunk_not_terminator: "\<not> is_terminator_chunk (openai_chunk rid created model t)"
  by (simp add: is_terminator_chunk_def openai_chunk_def first_choice_def)

lemma anthropic_usage_written:
  "written (snd (anthropic_usage recorded json reply)) = written reply"
  by (simp add: anthropic_usage_def split: option.splits)

lemma write_chunk_frames:
  assumes "\<forall>f \<in> set (written reply). \<not> terminator_frame f \<and> f \<noteq> DoneFrame"
  shows "\<forall>f \<in> set (written (writeOpenAiChunk ids clock reply t model)).
           \<not> terminator_frame f \<and> f \<noteq> DoneFrame"
  using assms by (auto simp: writeOpenAiChunk_def Let_def chunk_not_terminator)

text \<open>The loop writes content chunks only: no closing chunk and no \<open>[DONE]\<close> line.\<close>

lemma anthropic_events_frames:
  assumes "\<forall>f \<in> set (written reply). \<not> terminator_frame f \<and> f \<noteq> DoneFrame"
  shows "\<forall>f \<in> set (written (fst (anthropic_events parse ids clock model datas recorded reply))).
           \<not> terminator_frame f \<and> f \<noteq> DoneFrame"
  using assms
proof (induction datas arbitrary: recorded reply)
  case Nil
  then show ?case by simp
next
  case (Cons d ds)
  show ?case
  proof (cases "parse d")
    case None
    with Cons.IH [OF Cons.prems, of recorded] show ?thesis by simp
  next
    case (Some json)
    obtain recorded1 reply1 where u: "anthropic_usage recorded json reply = (recorded1, reply1)"
      by (cases "anthropic_usage recorded json reply")
    have inv1: "\<forall>f \<in> set (written reply1). \<not> terminator_frame f \<and> f \<noteq> DoneFrame"
      using Cons.prems anthropic_usage_written [of recorded json reply] u by simp
    show ?thesis
    proof (cases "json = JNull")
      case True
      with Some u inv1 show ?thesis by simp
    next
      case False
      show ?thesis
      proof (cases "delta_text json")
        case None
        with Some u False Cons.IH [OF inv1, of recorded1] show ?thesis by simp
      next
        case (Some t)
        note dt = this
        show ?thesis
        proof (cases "get_prop json ''type'' = Some (JStr ''content_block_delta'') \<and> truthy t")
          case True
          with \<open>parse d = Some json\<close> u False dt
            Cons.IH [OF write_chunk_frames [OF inv1, of ids clock t model], of recorded1]
          show ?thesis by simp
        next
          case False
          with \<open>parse d = Some json\<close> u \<open>json \<noteq> JNull\<close> dt Cons.IH [OF inv1, of recorded1]
          show ?thesis by auto
        qed
      qed
    qed
  qed
qed

text \<open>So, on every upstream body, what the streaming branch writes is not in the order
  the specification gives: when the loop ends, \<open>[DONE]\<close> follows a content chunk
  directly (or nothing); when it throws, \<open>[DONE]\<close> is not written.\<close>

lemma anthropic_stream_never_in_claimed_order:
  "\<not> claimed_frame_order
       (written (fst (proxyAnthropic_stream parse ids clock up payload body)))"
proof -
  let ?r = "anthropic_events parse ids clock (anthropic_model up payload) (readSse body)
              False initOpenAiStream"
  let ?w = "written (fst (proxyAnthropic_stream parse ids clock up payload body))"
  have inv: "\<forall>f \<in> set (written (fst ?r)). \<not> terminator_frame f \<and> f \<noteq> DoneFrame"
    by (rule anthropic_events_frames) (simp add: initOpenAiStream_def)
  show ?thesis
  proof (cases "snd ?r")
    case None
    then have w: "?w = written (fst ?r) @ [DoneFrame]"
      by (cases ?r) (simp add: proxyAnthropic_stream_def writeOpenAiDone_def)
    show ?thesis
    proof
      assume "claimed_frame_order ?w"
      then have "written (fst ?r) \<noteq> []" and "terminator_frame (last (written (fst ?r)))"
        unfolding w by (auto simp: claimed_frame_order_def)
      then show False using inv last_in_set by blast
    qed
  next
    case (Some err)
    then have w: "?w = written (fst ?r)"
      by (cases ?r) (simp add: proxyAnthropic_stream_def)
    show ?thesis
    proof
      assume "claimed_frame_order ?w"
      then have "written (fst ?r) \<noteq> []" and "last (written (fst ?r)) = DoneFrame"
        unfolding w by (auto simp: claimed_frame_order_def)
      then show False using inv last_in_set by metis
    qed
  qed
qed

text \<open>
  Claim C2. A translated stream with at least one content delta is said to end with a
  chunk of empty \<open>delta\<close> and \<open>finish_reason\<close> \<open>stop\<close> before \<open>[DONE]\<close>. On the
  specification's own Anthropic scenario (a start event with usage, the deltas \<open>Hi\<close> and
  \<open> there\<close>) the adapter writes the two content chunks and then \<open>[DONE]\<close>: three frames,
  none of them the closing chunk. \<open>sendOpenAiStream\<close> of the second helper module does
  write its frames in the order claimed.
\<close>

theorem anthropic_stream_lacks_terminator:
  "proxyAnthropic_stream example_parse example_ids example_clock
       (example_upstream ''frontier'' ''https://api.anthropic.com'' (Some ''claude-3''))
       [(''messages'', JArr []), (''stream'', JBool True)] (Some anthropic_body)
     = (\<lparr> written =
            [DataFrame (openai_chunk ''k3j0'' 1700000000 (Some (JStr ''claude-3'')) (JStr ''Hi'')),
             DataFrame (openai_chunk ''k3j1'' 1700000000 (Some (JStr ''claude-3''))
                          (JStr '' there'')),
             DoneFrame],
          ended = True,
          usage_recorded = [JObj [(''input_tokens'', JNum 5), (''output_tokens'', JNum 0)]] \<rparr>,
        None)
   \<and> \<not> claimed_frame_order
         [DataFrame (openai_chunk ''k3j0'' 1700000000 (Some (JStr ''claude-3'')) (JStr ''Hi'')),
          DataFrame (openai_chunk ''k3j1'' 1700000000 (Some (JStr ''claude-3''))
                       (JStr '' there'')),
          DoneFrame]
   \<and> claimed_frame_order
         (written (sendOpenAiStream ''k3j0'' 1700000000 (Some (JStr ''claude-3''))
                     (JStr ''Hi there'')))"
  by code_simp

end
